theory Spec2Isabelle
  imports Complex_Main "HOL-Library.Monad_Syntax"
begin

section \<open>JavaScript numbers\<close>

text \<open>
  Every value that \<^verbatim>\<open>src/price-order/index.js\<close> handles is a JavaScript number. The test
  suite passes \<^verbatim>\<open>Infinity\<close> as a threshold, so the three non-finite values of the language
  are part of the model. A finite number is modelled by the real it denotes. The result of
  an operator on finite numbers overflows as in IEEE 754 round-to-nearest: a result whose
  magnitude reaches \<open>2\<^sup>1\<^sup>0\<^sup>2\<^sup>4 - 2\<^sup>9\<^sup>7\<^sup>0\<close>, the midpoint between \<^verbatim>\<open>Number.MAX_VALUE\<close> and
  \<open>2\<^sup>1\<^sup>0\<^sup>2\<^sup>4\<close>, becomes \<^verbatim>\<open>Infinity\<close> or \<^verbatim>\<open>-Infinity\<close>. The rounding of a result inside that
  range to 53 significant bits and the sign of zero are not modelled.
\<close>

datatype number = Finite real | Infinity | NegInfinity | NaN

definition overflowBound :: real where
  "overflowBound = 2 ^ 1024 - 2 ^ 970"

text \<open>The number that an operator returns for the real result \<open>r\<close>.\<close>

definition fromReal :: "real \<Rightarrow> number" where
  "fromReal r =
     (if overflowBound \<le> r then Infinity
      else if r \<le> - overflowBound then NegInfinity
      else Finite r)"

text \<open>\<^verbatim>\<open>Number.isFinite\<close>.\<close>

fun isFinite :: "number \<Rightarrow> bool" where
  "isFinite (Finite a) = True"
| "isFinite Infinity = False"
| "isFinite NegInfinity = False"
| "isFinite NaN = False"

text \<open>
  The operator \<^verbatim>\<open>*\<close>: the product of two finite numbers may overflow, and
  \<^verbatim>\<open>0 * Infinity\<close> is \<^verbatim>\<open>NaN\<close>.
\<close>

fun js_mul :: "number \<Rightarrow> number \<Rightarrow> number" where
  "js_mul NaN y = NaN"
| "js_mul x NaN = NaN"
| "js_mul (Finite a) (Finite b) = fromReal (a * b)"
| "js_mul (Finite a) Infinity =
     (if a = 0 then NaN else if 0 < a then Infinity else NegInfinity)"
| "js_mul (Finite a) NegInfinity =
     (if a = 0 then NaN else if 0 < a then NegInfinity else Infinity)"
| "js_mul Infinity (Finite b) =
     (if b = 0 then NaN else if 0 < b then Infinity else NegInfinity)"
| "js_mul NegInfinity (Finite b) =
     (if b = 0 then NaN else if 0 < b then NegInfinity else Infinity)"
| "js_mul Infinity Infinity = Infinity"
| "js_mul Infinity NegInfinity = NegInfinity"
| "js_mul NegInfinity Infinity = NegInfinity"
| "js_mul NegInfinity NegInfinity = Infinity"

text \<open>The operator \<^verbatim>\<open>+\<close> on numbers: \<^verbatim>\<open>Infinity + -Infinity\<close> is \<^verbatim>\<open>NaN\<close>.\<close>

fun js_add :: "number \<Rightarrow> number \<Rightarrow> number" where
  "js_add NaN y = NaN"
| "js_add x NaN = NaN"
| "js_add (Finite a) (Finite b) = fromReal (a + b)"
| "js_add (Finite a) Infinity = Infinity"
| "js_add (Finite a) NegInfinity = NegInfinity"
| "js_add Infinity (Finite b) = Infinity"
| "js_add NegInfinity (Finite b) = NegInfinity"
| "js_add Infinity Infinity = Infinity"
| "js_add Infinity NegInfinity = NaN"
| "js_add NegInfinity Infinity = NaN"
| "js_add NegInfinity NegInfinity = NegInfinity"

text \<open>The operator \<^verbatim>\<open>-\<close>: \<^verbatim>\<open>Infinity - Infinity\<close> is \<^verbatim>\<open>NaN\<close>.\<close>

fun js_sub :: "number \<Rightarrow> number \<Rightarrow> number" where
  "js_sub NaN y = NaN"
| "js_sub x NaN = NaN"
| "js_sub (Finite a) (Finite b) = fromReal (a - b)"
| "js_sub (Finite a) Infinity = NegInfinity"
| "js_sub (Finite a) NegInfinity = Infinity"
| "js_sub Infinity (Finite b) = Infinity"
| "js_sub NegInfinity (Finite b) = NegInfinity"
| "js_sub Infinity Infinity = NaN"
| "js_sub Infinity NegInfinity = Infinity"
| "js_sub NegInfinity Infinity = NegInfinity"
| "js_sub NegInfinity NegInfinity = NaN"

text \<open>
  The relation \<^verbatim>\<open>x < y\<close>; the source's \<^verbatim>\<open>x > y\<close> is \<^verbatim>\<open>y < x\<close>. A comparison with
  \<^verbatim>\<open>NaN\<close> is false.
\<close>

fun js_lt :: "number \<Rightarrow> number \<Rightarrow> bool" where
  "js_lt NaN y = False"
| "js_lt x NaN = False"
| "js_lt (Finite a) (Finite b) = (a < b)"
| "js_lt (Finite a) Infinity = True"
| "js_lt (Finite a) NegInfinity = False"
| "js_lt Infinity y = False"
| "js_lt NegInfinity (Finite b) = True"
| "js_lt NegInfinity Infinity = True"
| "js_lt NegInfinity NegInfinity = False"

text \<open>The relation \<^verbatim>\<open>x <= y\<close>: false on \<^verbatim>\<open>NaN\<close>, and otherwise the negation of \<^verbatim>\<open>y < x\<close>.\<close>

fun js_le :: "number \<Rightarrow> number \<Rightarrow> bool" where
  "js_le NaN y = False"
| "js_le x NaN = False"
| "js_le x y = (\<not> js_lt y x)"

text \<open>
  \<^verbatim>\<open>Math.max\<close> of two arguments: \<^verbatim>\<open>NaN\<close> if either argument is \<^verbatim>\<open>NaN\<close>, the larger one
  otherwise.
\<close>

fun Math_max :: "number \<Rightarrow> number \<Rightarrow> number" where
  "Math_max NaN y = NaN"
| "Math_max x NaN = NaN"
| "Math_max x y = (if js_lt x y then y else x)"

text \<open>
  The arithmetic and comparison symbols on \<^typ>\<open>number\<close> stand for the operators above, so
  that the functions below are written as in the source.
\<close>

instantiation number :: "{zero, plus, minus, times, ord}"
begin

definition zero_number :: number where
  "zero_number = Finite 0"

definition plus_number :: "number \<Rightarrow> number \<Rightarrow> number" where
  "plus_number x y = js_add x y"

definition minus_number :: "number \<Rightarrow> number \<Rightarrow> number" where
  "minus_number x y = js_sub x y"

definition times_number :: "number \<Rightarrow> number \<Rightarrow> number" where
  "times_number x y = js_mul x y"

definition less_number :: "number \<Rightarrow> number \<Rightarrow> bool" where
  "less_number x y = js_lt x y"

definition less_eq_number :: "number \<Rightarrow> number \<Rightarrow> bool" where
  "less_eq_number x y = js_le x y"

instance ..

end

section \<open>The records of the order pricer\<close>

text \<open>
  The object shapes that \<^verbatim>\<open>src/price-order/index.js\<close> reads and builds. The fields
  \<^verbatim>\<open>basePrice\<close> and \<^verbatim>\<open>discountThreshold\<close> occur in two shapes each and are written with
  the name of their record. A parameter or local constant of the source whose name is also
  a field name carries a prime.
\<close>

record Product =
  basePrice :: number
  discountThreshold :: number
  discountRate :: number

record ShippingMethod =
  discountThreshold :: number
  discountFee :: number
  feePerCase :: number

record PricingData =
  basePrice :: number
  quantity :: number
  discount :: number

section \<open>The two phases and their composition\<close>

text \<open>
  \<^verbatim>\<open>calculatePricingData(product, quantity)\<close>, phase 1 (the specification calls it
  \<^verbatim>\<open>computePricingData\<close>).
\<close>

definition calculatePricingData :: "Product \<Rightarrow> number \<Rightarrow> PricingData" where
  "calculatePricingData product quantity' =
     (let basePrice' = Product.basePrice product * quantity';
          discount' =
            Math_max (quantity' - Product.discountThreshold product) 0
              * Product.basePrice product * discountRate product
      in \<lparr>PricingData.basePrice = basePrice', quantity = quantity', discount = discount'\<rparr>)"

text \<open>The constant \<^verbatim>\<open>shippingPerCase\<close> of \<^verbatim>\<open>applyShipping\<close>.\<close>

definition shippingPerCase :: "PricingData \<Rightarrow> ShippingMethod \<Rightarrow> number" where
  "shippingPerCase priceData shippingMethod =
     (if PricingData.basePrice priceData > ShippingMethod.discountThreshold shippingMethod
      then discountFee shippingMethod
      else feePerCase shippingMethod)"

text \<open>\<^verbatim>\<open>applyShipping(priceData, shippingMethod)\<close>, phase 2.\<close>

definition applyShipping :: "PricingData \<Rightarrow> ShippingMethod \<Rightarrow> number" where
  "applyShipping priceData shippingMethod =
     (let shippingCost = quantity priceData * shippingPerCase priceData shippingMethod;
          price = PricingData.basePrice priceData - discount priceData + shippingCost
      in price)"

text \<open>\<^verbatim>\<open>priceOrder(product, quantity, shippingMethod)\<close>.\<close>

definition priceOrder :: "Product \<Rightarrow> number \<Rightarrow> ShippingMethod \<Rightarrow> number" where
  "priceOrder product quantity' shippingMethod =
     (let priceData = calculatePricingData product quantity';
          price = applyShipping priceData shippingMethod
      in price)"

text \<open>
  The function before the refactoring, as \<^verbatim>\<open>README.md\<close> lists it under "Working example":
  one body, no intermediate record.
\<close>

definition priceOrder_initial :: "Product \<Rightarrow> number \<Rightarrow> ShippingMethod \<Rightarrow> number" where
  "priceOrder_initial product quantity' shippingMethod =
     (let basePrice' = Product.basePrice product * quantity';
          discount' =
            Math_max (quantity' - Product.discountThreshold product) 0
              * Product.basePrice product * discountRate product;
          shippingPerCase' =
            (if basePrice' > ShippingMethod.discountThreshold shippingMethod
             then discountFee shippingMethod
             else feePerCase shippingMethod);
          shippingCost = quantity' * shippingPerCase';
          price = basePrice' - discount' + shippingCost
      in price)"

section \<open>The same functions over a store of objects\<close>

text \<open>
  In JavaScript the arguments \<^verbatim>\<open>product\<close> and \<^verbatim>\<open>shippingMethod\<close> are references to mutable
  objects, and the object literal of \<^verbatim>\<open>calculatePricingData\<close> allocates a new one. This
  second embedding makes that explicit: an object is a map from property names to numbers,
  the store is the list of all objects, a reference is an index into it, and every function
  takes the store and returns the store it leaves behind. A property that an object does
  not have reads as \<^verbatim>\<open>undefined\<close>, which every operator of the source converts to
  \<^verbatim>\<open>NaN\<close>; a reference that is not in the store cannot arise in the language and yields
  \<open>None\<close>.
\<close>

type_synonym object = "string \<rightharpoonup> number"

type_synonym reference = nat

type_synonym store = "object list"

definition getProperty :: "store \<Rightarrow> reference \<Rightarrow> string \<Rightarrow> number option" where
  "getProperty h r name =
     (if r < length h
      then Some (case (h ! r) name of None \<Rightarrow> NaN | Some v \<Rightarrow> v)
      else None)"

definition newObject :: "store \<Rightarrow> object \<Rightarrow> store \<times> reference" where
  "newObject h obj = (h @ [obj], length h)"

definition calculatePricingData_store ::
  "store \<Rightarrow> reference \<Rightarrow> number \<Rightarrow> (store \<times> reference) option" where
  "calculatePricingData_store h product quantity' =
     do {
       p1 \<leftarrow> getProperty h product ''basePrice'';
       let basePrice' = p1 * quantity';
       t \<leftarrow> getProperty h product ''discountThreshold'';
       p2 \<leftarrow> getProperty h product ''basePrice'';
       r \<leftarrow> getProperty h product ''discountRate'';
       let discount' = Math_max (quantity' - t) 0 * p2 * r;
       Some (newObject h
         [''basePrice'' \<mapsto> basePrice', ''quantity'' \<mapsto> quantity', ''discount'' \<mapsto> discount'])
     }"

definition applyShipping_store ::
  "store \<Rightarrow> reference \<Rightarrow> reference \<Rightarrow> (store \<times> number) option" where
  "applyShipping_store h priceData shippingMethod =
     do {
       b1 \<leftarrow> getProperty h priceData ''basePrice'';
       t \<leftarrow> getProperty h shippingMethod ''discountThreshold'';
       shippingPerCase' \<leftarrow>
         (if b1 > t
          then getProperty h shippingMethod ''discountFee''
          else getProperty h shippingMethod ''feePerCase'');
       q \<leftarrow> getProperty h priceData ''quantity'';
       let shippingCost = q * shippingPerCase';
       b2 \<leftarrow> getProperty h priceData ''basePrice'';
       d \<leftarrow> getProperty h priceData ''discount'';
       let price = b2 - d + shippingCost;
       Some (h, price)
     }"

definition priceOrder_store ::
  "store \<Rightarrow> reference \<Rightarrow> number \<Rightarrow> reference \<Rightarrow> (store \<times> number) option" where
  "priceOrder_store h product quantity' shippingMethod =
     do {
       (h1, priceData) \<leftarrow> calculatePricingData_store h product quantity';
       (h2, price) \<leftarrow> applyShipping_store h1 priceData shippingMethod;
       Some (h2, price)
     }"

text \<open>
  \<open>holdsProduct h r p\<close>: the object at \<open>r\<close> carries the three properties of the product
  \<open>p\<close>; likewise for a shipping method. Further properties are allowed.
\<close>

definition holdsProduct :: "store \<Rightarrow> reference \<Rightarrow> Product \<Rightarrow> bool" where
  "holdsProduct h r p \<longleftrightarrow>
     r < length h
     \<and> (h ! r) ''basePrice'' = Some (Product.basePrice p)
     \<and> (h ! r) ''discountThreshold'' = Some (Product.discountThreshold p)
     \<and> (h ! r) ''discountRate'' = Some (discountRate p)"

definition holdsShippingMethod :: "store \<Rightarrow> reference \<Rightarrow> ShippingMethod \<Rightarrow> bool" where
  "holdsShippingMethod h r s \<longleftrightarrow>
     r < length h
     \<and> (h ! r) ''discountThreshold'' = Some (ShippingMethod.discountThreshold s)
     \<and> (h ! r) ''discountFee'' = Some (discountFee s)
     \<and> (h ! r) ''feePerCase'' = Some (feePerCase s)"

definition holdsPricingData :: "store \<Rightarrow> reference \<Rightarrow> PricingData \<Rightarrow> bool" where
  "holdsPricingData h r d \<longleftrightarrow>
     r < length h
     \<and> (h ! r) ''basePrice'' = Some (PricingData.basePrice d)
     \<and> (h ! r) ''quantity'' = Some (quantity d)
     \<and> (h ! r) ''discount'' = Some (discount d)"

section \<open>Facts about the number operators\<close>

lemmas number_ops =
  zero_number_def plus_number_def minus_number_def times_number_def
  less_number_def less_eq_number_def

lemma overflowBound_large: "1000000 < overflowBound"
  by (simp add: overflowBound_def)

lemma overflowBound_positive: "0 < overflowBound"
  using overflowBound_large by linarith

lemma fromReal_small: "\<bar>r\<bar> \<le> 1000000 \<Longrightarrow> fromReal r = Finite r"
  using overflowBound_large by (simp add: fromReal_def abs_le_iff)

lemma fromReal_zero: "fromReal 0 = Finite 0"
  by (simp add: fromReal_small)

lemma fromReal_positive: "0 < r \<Longrightarrow> fromReal r = Finite r \<or> fromReal r = Infinity"
  using overflowBound_positive by (simp add: fromReal_def)


lemma fromReal_nonpos: "r \<le> 0 \<Longrightarrow> fromReal r = Finite r \<or> fromReal r = NegInfinity"
  using overflowBound_positive by (simp add: fromReal_def)

lemma fromReal_finite: "isFinite (fromReal r) \<Longrightarrow> fromReal r = Finite r"
  by (simp add: fromReal_def split: if_splits)

lemma greater_Finite: "Finite a > Finite b \<longleftrightarrow> a > b"
  by (simp add: number_ops)

lemma not_greater_self: "\<not> x > (x::number)"
  by (cases x) (simp_all add: number_ops)

lemma not_greater_Infinity: "\<not> x > Infinity"
  by (cases x) (simp_all add: number_ops)

lemma less_eq_imp_not_greater: "x \<le> y \<Longrightarrow> \<not> x > (y::number)"
  by (cases x; cases y) (simp_all add: number_ops)

lemma Math_max_fromReal_positive: "0 < r \<Longrightarrow> Math_max (fromReal r) (Finite 0) = fromReal r"
  using fromReal_positive[of r] by auto

lemma Math_max_fromReal_nonpos: "r \<le> 0 \<Longrightarrow> Math_max (fromReal r) (Finite 0) = Finite 0"
  using fromReal_nonpos[of r] by auto


lemma Math_max_positive: "y < x \<Longrightarrow> Math_max (x - y) 0 = x - (y::number)"
  by (cases x; cases y) (simp_all add: number_ops Math_max_fromReal_positive)

lemma Math_max_not_above: "x \<le> y \<Longrightarrow> isFinite x \<Longrightarrow> Math_max (x - y) 0 = (0::number)"
  by (cases x; cases y) (simp_all add: number_ops Math_max_fromReal_nonpos)

lemma Math_max_unbounded: "isFinite q \<Longrightarrow> Math_max (q - Infinity) 0 = 0"
  by (cases q) (simp_all add: number_ops)


lemma zero_times_finite: "isFinite a \<Longrightarrow> 0 * a = (0::number)"
  by (cases a) (simp_all add: number_ops fromReal_zero)




section \<open>Phase 1: the pricing data\<close>

lemma discount_calculatePricingData:
  "discount (calculatePricingData product quantity') =
     Math_max (quantity' - Product.discountThreshold product) 0
       * Product.basePrice product * discountRate product"
  by (simp add: calculatePricingData_def Let_def)

text \<open>
  C1: the discount of phase 1 is
  \<^verbatim>\<open>(quantity - discountThreshold) * basePrice * discountRate\<close> when the quantity is above the
  product's threshold, and \<open>0\<close> when it is at or below it. The first half holds for all
  numbers; the second half is for the products and quantities of the data model, whose
  quantity, base price and discount rate are finite (the threshold may be \<^verbatim>\<open>Infinity\<close>).
\<close>

theorem calculatePricingData_discount:
  "(quantity' > Product.discountThreshold product \<longrightarrow>
      discount (calculatePricingData product quantity') =
        (quantity' - Product.discountThreshold product)
          * Product.basePrice product * discountRate product)
   \<and> (quantity' \<le> Product.discountThreshold product
        \<and> isFinite quantity' \<and> isFinite (Product.basePrice product)
        \<and> isFinite (discountRate product) \<longrightarrow>
      discount (calculatePricingData product quantity') = 0)"
  by (simp add: discount_calculatePricingData Math_max_positive Math_max_not_above
      zero_times_finite)

theorem calculatePricingData_discount_witness:
  "Finite 10 > Finite 1
   \<and> discount (calculatePricingData
        \<lparr>Product.basePrice = Finite 10, discountThreshold = Finite 1,
           discountRate = Finite (1 / 10)\<rparr>
        (Finite 10)) = Finite 9
   \<and> Finite 10 \<le> Infinity
   \<and> isFinite (Finite 10)
   \<and> discount (calculatePricingData
        \<lparr>Product.basePrice = Finite 10, discountThreshold = Infinity,
           discountRate = Finite 10\<rparr>
        (Finite 10)) = Finite 0"
  using calculatePricingData_discount
      [where product = "\<lparr>Product.basePrice = Finite 10, discountThreshold = Finite 1,
         discountRate = Finite (1 / 10)\<rparr>" and quantity' = "Finite 10"]
    calculatePricingData_discount
      [where product = "\<lparr>Product.basePrice = Finite 10, discountThreshold = Infinity,
         discountRate = Finite 10\<rparr>" and quantity' = "Finite 10"]
  by (simp add: number_ops fromReal_small)

text \<open>
  The finiteness of the base price is needed for a zero discount: with a base price of
  \<^verbatim>\<open>Infinity\<close> the product \<^verbatim>\<open>0 * Infinity\<close> is \<^verbatim>\<open>NaN\<close>.
\<close>

lemma discount_of_infinite_basePrice:
  "discount (calculatePricingData
     \<lparr>Product.basePrice = Infinity, discountThreshold = Infinity, discountRate = Finite 1\<rparr>
     (Finite 10)) = NaN"
  by (simp add: calculatePricingData_def Let_def number_ops fromReal_small)

text \<open>
  C5: the record built by phase 1 has the three fields \<^verbatim>\<open>basePrice\<close>, \<^verbatim>\<open>quantity\<close> and
  \<^verbatim>\<open>discount\<close> and no other: the base price is the product's base price times the quantity,
  the quantity is the one passed in, and the discount is the volume discount.
\<close>

theorem calculatePricingData_fields:
  "calculatePricingData product quantity' =
     \<lparr>PricingData.basePrice = Product.basePrice product * quantity',
      quantity = quantity',
      discount = Math_max (quantity' - Product.discountThreshold product) 0
                   * Product.basePrice product * discountRate product\<rparr>"
  by (simp add: calculatePricingData_def Let_def)




text \<open>
  C7: when the product's threshold is unbounded (\<^verbatim>\<open>Infinity\<close>), the discount is zero
  whatever the base price and the discount rate of the product and whatever the quantity
  (all three finite, as in the data model).
\<close>

theorem unbounded_threshold_no_discount:
  assumes "Product.discountThreshold product = Infinity"
    and "isFinite quantity'" and "isFinite (Product.basePrice product)"
    and "isFinite (discountRate product)"
  shows "discount (calculatePricingData product quantity') = 0"
  using assms
  by (simp add: discount_calculatePricingData Math_max_unbounded zero_times_finite)

theorem unbounded_threshold_no_discount_witness:
  "discount (calculatePricingData
     \<lparr>Product.basePrice = Finite 10, discountThreshold = Infinity, discountRate = Finite 10\<rparr>
     (Finite 10)) = 0"
  using unbounded_threshold_no_discount
      [where product = "\<lparr>Product.basePrice = Finite 10, discountThreshold = Infinity,
         discountRate = Finite 10\<rparr>" and quantity' = "Finite 10"]
  by simp

section \<open>Phase 2: the shipping\<close>

text \<open>
  C2: \<^verbatim>\<open>applyShipping\<close> charges the per-case fee chosen by a strict comparison: the
  quantity is multiplied by \<^verbatim>\<open>discountFee\<close> if the base price of the pricing data is greater
  than the shipping method's threshold and by \<^verbatim>\<open>feePerCase\<close> otherwise; a base price equal
  to the threshold is charged \<^verbatim>\<open>feePerCase\<close>.
\<close>

theorem applyShipping_strict_comparison:
  "(PricingData.basePrice priceData > ShippingMethod.discountThreshold shippingMethod \<longrightarrow>
      shippingPerCase priceData shippingMethod = discountFee shippingMethod
      \<and> applyShipping priceData shippingMethod =
          PricingData.basePrice priceData - discount priceData
            + quantity priceData * discountFee shippingMethod)
   \<and> (\<not> PricingData.basePrice priceData > ShippingMethod.discountThreshold shippingMethod \<longrightarrow>
      shippingPerCase priceData shippingMethod = feePerCase shippingMethod
      \<and> applyShipping priceData shippingMethod =
          PricingData.basePrice priceData - discount priceData
            + quantity priceData * feePerCase shippingMethod)
   \<and> (PricingData.basePrice priceData = ShippingMethod.discountThreshold shippingMethod \<longrightarrow>
      shippingPerCase priceData shippingMethod = feePerCase shippingMethod
      \<and> applyShipping priceData shippingMethod =
          PricingData.basePrice priceData - discount priceData
            + quantity priceData * feePerCase shippingMethod)"
  by (simp add: applyShipping_def shippingPerCase_def Let_def not_greater_self)

theorem applyShipping_strict_comparison_witness:
  "Finite 100 > Finite 1
   \<and> applyShipping
        \<lparr>PricingData.basePrice = Finite 100, quantity = Finite 10, discount = Finite 0\<rparr>
        \<lparr>ShippingMethod.discountThreshold = Finite 1, discountFee = Finite 1,
           feePerCase = Finite 2\<rparr> = Finite 110
   \<and> \<not> Finite 100 > Infinity
   \<and> applyShipping
        \<lparr>PricingData.basePrice = Finite 100, quantity = Finite 10, discount = Finite 0\<rparr>
        \<lparr>ShippingMethod.discountThreshold = Infinity, discountFee = Finite 1,
           feePerCase = Finite 2\<rparr> = Finite 120
   \<and> applyShipping
        \<lparr>PricingData.basePrice = Finite 100, quantity = Finite 10, discount = Finite 0\<rparr>
        \<lparr>ShippingMethod.discountThreshold = Finite 100, discountFee = Finite 1,
           feePerCase = Finite 2\<rparr> = Finite 120"
  using applyShipping_strict_comparison
      [where priceData = "\<lparr>PricingData.basePrice = Finite 100, quantity = Finite 10,
         discount = Finite 0\<rparr>"
       and shippingMethod = "\<lparr>ShippingMethod.discountThreshold = Finite 1,
         discountFee = Finite 1, feePerCase = Finite 2\<rparr>"]
    applyShipping_strict_comparison
      [where priceData = "\<lparr>PricingData.basePrice = Finite 100, quantity = Finite 10,
         discount = Finite 0\<rparr>"
       and shippingMethod = "\<lparr>ShippingMethod.discountThreshold = Infinity,
         discountFee = Finite 1, feePerCase = Finite 2\<rparr>"]
    applyShipping_strict_comparison
      [where priceData = "\<lparr>PricingData.basePrice = Finite 100, quantity = Finite 10,
         discount = Finite 0\<rparr>"
       and shippingMethod = "\<lparr>ShippingMethod.discountThreshold = Finite 100,
         discountFee = Finite 1, feePerCase = Finite 2\<rparr>"]
  by (simp add: number_ops fromReal_small)

text \<open>
  C3: \<^verbatim>\<open>applyShipping\<close> returns base price minus discount plus shipping cost, the shipping
  cost being the quantity times the per-case fee, and the per-case fee being
  \<^verbatim>\<open>discountFee\<close> if the base price is greater than the shipping method's threshold and
  \<^verbatim>\<open>feePerCase\<close> otherwise.
\<close>

theorem applyShipping_result:
  "applyShipping priceData shippingMethod =
     PricingData.basePrice priceData - discount priceData
       + quantity priceData
           * (if PricingData.basePrice priceData
                   > ShippingMethod.discountThreshold shippingMethod
              then discountFee shippingMethod
              else feePerCase shippingMethod)"
  by (simp add: applyShipping_def shippingPerCase_def Let_def)

lemma applyShipping_greater:
  assumes "PricingData.basePrice priceData > ShippingMethod.discountThreshold s1"
    and "ShippingMethod.discountThreshold s1 = ShippingMethod.discountThreshold s2"
    and "discountFee s1 = discountFee s2"
  shows "applyShipping priceData s1 = applyShipping priceData s2"
  using assms by (simp add: applyShipping_def shippingPerCase_def Let_def)

lemma applyShipping_not_greater:
  assumes "\<not> PricingData.basePrice priceData > ShippingMethod.discountThreshold s1"
    and "ShippingMethod.discountThreshold s1 = ShippingMethod.discountThreshold s2"
    and "feePerCase s1 = feePerCase s2"
  shows "applyShipping priceData s1 = applyShipping priceData s2"
  using assms by (simp add: applyShipping_def shippingPerCase_def Let_def)

text \<open>
  C10: the fee of the tier that is not selected has no influence. Two shipping methods
  with the same threshold and the same \<^verbatim>\<open>discountFee\<close> give the same result when the base
  price is above the threshold, whatever their \<^verbatim>\<open>feePerCase\<close>; two with the same threshold
  and the same \<^verbatim>\<open>feePerCase\<close> give the same result when the base price is at or below the
  threshold, whatever their \<^verbatim>\<open>discountFee\<close>.
\<close>

theorem applyShipping_unused_fee:
  "(ShippingMethod.discountThreshold s1 = ShippingMethod.discountThreshold s2
      \<and> discountFee s1 = discountFee s2
      \<and> PricingData.basePrice priceData > ShippingMethod.discountThreshold s1 \<longrightarrow>
      applyShipping priceData s1 = applyShipping priceData s2)
   \<and> (ShippingMethod.discountThreshold s1 = ShippingMethod.discountThreshold s2
      \<and> feePerCase s1 = feePerCase s2
      \<and> PricingData.basePrice priceData \<le> ShippingMethod.discountThreshold s1 \<longrightarrow>
      applyShipping priceData s1 = applyShipping priceData s2)"
proof (intro conjI impI)
  assume "ShippingMethod.discountThreshold s1 = ShippingMethod.discountThreshold s2
      \<and> discountFee s1 = discountFee s2
      \<and> PricingData.basePrice priceData > ShippingMethod.discountThreshold s1"
  then show "applyShipping priceData s1 = applyShipping priceData s2"
    using applyShipping_greater by blast
next
  assume below: "ShippingMethod.discountThreshold s1 = ShippingMethod.discountThreshold s2
      \<and> feePerCase s1 = feePerCase s2
      \<and> PricingData.basePrice priceData \<le> ShippingMethod.discountThreshold s1"
  then have "\<not> PricingData.basePrice priceData > ShippingMethod.discountThreshold s1"
    using less_eq_imp_not_greater by blast
  with below show "applyShipping priceData s1 = applyShipping priceData s2"
    using applyShipping_not_greater by blast
qed

theorem applyShipping_unused_fee_witness:
  "Finite 100 > Finite 1
   \<and> applyShipping
        \<lparr>PricingData.basePrice = Finite 100, quantity = Finite 10, discount = Finite 0\<rparr>
        \<lparr>ShippingMethod.discountThreshold = Finite 1, discountFee = Finite 1,
           feePerCase = Finite 5\<rparr>
     = applyShipping
        \<lparr>PricingData.basePrice = Finite 100, quantity = Finite 10, discount = Finite 0\<rparr>
        \<lparr>ShippingMethod.discountThreshold = Finite 1, discountFee = Finite 1,
           feePerCase = Finite 7\<rparr>
   \<and> Finite 100 \<le> Infinity
   \<and> applyShipping
        \<lparr>PricingData.basePrice = Finite 100, quantity = Finite 10, discount = Finite 0\<rparr>
        \<lparr>ShippingMethod.discountThreshold = Infinity, discountFee = Finite 5,
           feePerCase = Finite 1\<rparr>
     = applyShipping
        \<lparr>PricingData.basePrice = Finite 100, quantity = Finite 10, discount = Finite 0\<rparr>
        \<lparr>ShippingMethod.discountThreshold = Infinity, discountFee = Finite 7,
           feePerCase = Finite 1\<rparr>"
  using applyShipping_unused_fee
      [where priceData = "\<lparr>PricingData.basePrice = Finite 100, quantity = Finite 10,
         discount = Finite 0\<rparr>"
       and ?s1.0 = "\<lparr>ShippingMethod.discountThreshold = Finite 1, discountFee = Finite 1,
         feePerCase = Finite 5\<rparr>"
       and ?s2.0 = "\<lparr>ShippingMethod.discountThreshold = Finite 1, discountFee = Finite 1,
         feePerCase = Finite 7\<rparr>"]
    applyShipping_unused_fee
      [where priceData = "\<lparr>PricingData.basePrice = Finite 100, quantity = Finite 10,
         discount = Finite 0\<rparr>"
       and ?s1.0 = "\<lparr>ShippingMethod.discountThreshold = Infinity, discountFee = Finite 5,
         feePerCase = Finite 1\<rparr>"
       and ?s2.0 = "\<lparr>ShippingMethod.discountThreshold = Infinity, discountFee = Finite 7,
         feePerCase = Finite 1\<rparr>"]
  by (simp add: number_ops)

section \<open>The composition\<close>

text \<open>
  C4: \<^verbatim>\<open>priceOrder\<close> is phase 2 applied to the result of phase 1 and nothing else.
\<close>

theorem priceOrder_composes_phases:
  "priceOrder product quantity' shippingMethod =
     applyShipping (calculatePricingData product quantity') shippingMethod"
  by (simp add: priceOrder_def Let_def)

text \<open>The split changed no result: the function of before the refactoring agrees.\<close>

lemma priceOrder_initial_eq:
  "priceOrder_initial product quantity' shippingMethod =
     priceOrder product quantity' shippingMethod"
  by (simp add: priceOrder_initial_def priceOrder_def applyShipping_def shippingPerCase_def
      calculatePricingData_def Let_def)

text \<open>
  C8: a product of base price 10, threshold 1 and rate 0.1, ordered 10 times with free
  shipping, costs 91, the discount being 9.
\<close>

theorem priceOrder_discount_scenario:
  "priceOrder
     \<lparr>Product.basePrice = Finite 10, discountThreshold = Finite 1,
        discountRate = Finite (1 / 10)\<rparr>
     (Finite 10)
     \<lparr>ShippingMethod.discountThreshold = Infinity, discountFee = Finite 0,
        feePerCase = Finite 0\<rparr>
   = Finite 91
   \<and> discount (calculatePricingData
        \<lparr>Product.basePrice = Finite 10, discountThreshold = Finite 1,
           discountRate = Finite (1 / 10)\<rparr>
        (Finite 10)) = Finite 9"
  by (simp add: priceOrder_def applyShipping_def shippingPerCase_def calculatePricingData_def
      Let_def number_ops fromReal_small)

text \<open>The other three scenarios of \<^verbatim>\<open>src/price-order/index.test.js\<close>.\<close>

lemma priceOrder_test_scenarios:
  "priceOrder
     \<lparr>Product.basePrice = Finite 10, discountThreshold = Infinity, discountRate = Finite 10\<rparr>
     (Finite 10)
     \<lparr>ShippingMethod.discountThreshold = Infinity, discountFee = Finite 0,
        feePerCase = Finite 0\<rparr>
   = Finite 100"
  "priceOrder
     \<lparr>Product.basePrice = Finite 10, discountThreshold = Infinity,
        discountRate = Finite (1 / 10)\<rparr>
     (Finite 10)
     \<lparr>ShippingMethod.discountThreshold = Finite 1, discountFee = Finite 1,
        feePerCase = Finite 0\<rparr>
   = Finite 110"
  "priceOrder
     \<lparr>Product.basePrice = Finite 10, discountThreshold = Infinity,
        discountRate = Finite (1 / 10)\<rparr>
     (Finite 10)
     \<lparr>ShippingMethod.discountThreshold = Infinity, discountFee = Finite 0,
        feePerCase = Finite 1\<rparr>
   = Finite 110"
  by (simp_all add: priceOrder_def applyShipping_def shippingPerCase_def
      calculatePricingData_def Let_def number_ops fromReal_small)

section \<open>Purity\<close>

lemma getProperty_present:
  "r < length h \<Longrightarrow> (h ! r) name = Some v \<Longrightarrow> getProperty h r name = Some v"
  by (simp add: getProperty_def)

text \<open>
  Phase 1 over the store reads the product, appends one object with exactly the three
  properties of the pricing data and returns its reference.
\<close>

lemma calculatePricingData_store_eq:
  assumes "holdsProduct h product p"
  shows "calculatePricingData_store h product quantity' =
    Some (h @ [[''basePrice'' \<mapsto> PricingData.basePrice (calculatePricingData p quantity'),
                ''quantity'' \<mapsto> quantity (calculatePricingData p quantity'),
                ''discount'' \<mapsto> discount (calculatePricingData p quantity')]],
          length h)"
  using assms
  by (simp add: holdsProduct_def calculatePricingData_store_def calculatePricingData_def
      getProperty_present newObject_def Let_def)

lemma holdsPricingData_new:
  "holdsPricingData
     (h @ [[''basePrice'' \<mapsto> PricingData.basePrice d, ''quantity'' \<mapsto> quantity d,
            ''discount'' \<mapsto> discount d]])
     (length h) d"
  by (simp add: holdsPricingData_def)

lemma holdsShippingMethod_append:
  "holdsShippingMethod h r s \<Longrightarrow> holdsShippingMethod (h @ [obj]) r s"
  by (simp add: holdsShippingMethod_def nth_append)

lemma applyShipping_store_eq:
  assumes "holdsPricingData h priceData d" and "holdsShippingMethod h shippingMethod s"
  shows "applyShipping_store h priceData shippingMethod = Some (h, applyShipping d s)"
  using assms
  by (simp add: holdsPricingData_def holdsShippingMethod_def applyShipping_store_def
      applyShipping_def shippingPerCase_def getProperty_present Let_def)

lemma priceOrder_store_eq:
  assumes "holdsProduct h product p" and "holdsShippingMethod h shippingMethod s"
  shows "priceOrder_store h product quantity' shippingMethod =
    Some (h @ [[''basePrice'' \<mapsto> PricingData.basePrice (calculatePricingData p quantity'),
                ''quantity'' \<mapsto> quantity (calculatePricingData p quantity'),
                ''discount'' \<mapsto> discount (calculatePricingData p quantity')]],
          priceOrder p quantity' s)"
  using calculatePricingData_store_eq[OF assms(1), of quantity']
    applyShipping_store_eq[OF holdsPricingData_new holdsShippingMethod_append[OF assms(2)]]
  by (simp add: priceOrder_store_def priceOrder_def Let_def)

text \<open>
  C9: \<^verbatim>\<open>priceOrder\<close> is pure and deterministic. Two calls, in any two stores and through any
  references, whose product and shipping method objects hold the same values and whose
  quantities are equal, both return, and return the same price: the price is a function of
  the three argument values alone, so nothing outside the arguments is read. Each call
  leaves every object that was in its store as it was, the two argument objects among
  them.
\<close>

theorem priceOrder_pure_deterministic:
  assumes "holdsProduct h1 product1 p" and "holdsShippingMethod h1 shippingMethod1 s"
    and "holdsProduct h2 product2 p" and "holdsShippingMethod h2 shippingMethod2 s"
  shows "\<exists>h1' h2' price.
      priceOrder_store h1 product1 quantity' shippingMethod1 = Some (h1', price)
    \<and> priceOrder_store h2 product2 quantity' shippingMethod2 = Some (h2', price)
    \<and> price = priceOrder p quantity' s
    \<and> take (length h1) h1' = h1 \<and> take (length h2) h2' = h2"
  using priceOrder_store_eq[OF assms(1,2), of quantity']
    priceOrder_store_eq[OF assms(3,4), of quantity']
  by simp

theorem priceOrder_pure_deterministic_witness:
  "\<exists>h1' h2' price.
      priceOrder_store
        [[''basePrice'' \<mapsto> Finite 10, ''discountThreshold'' \<mapsto> Finite 1,
          ''discountRate'' \<mapsto> Finite (1 / 10)],
         [''discountThreshold'' \<mapsto> Infinity, ''discountFee'' \<mapsto> Finite 0,
          ''feePerCase'' \<mapsto> Finite 0]]
        0 (Finite 10) 1 = Some (h1', price)
    \<and> priceOrder_store
        [[''discountThreshold'' \<mapsto> Infinity, ''discountFee'' \<mapsto> Finite 0,
          ''feePerCase'' \<mapsto> Finite 0],
         [''unrelated'' \<mapsto> Finite 7],
         [''basePrice'' \<mapsto> Finite 10, ''discountThreshold'' \<mapsto> Finite 1,
          ''discountRate'' \<mapsto> Finite (1 / 10)]]
        2 (Finite 10) 0 = Some (h2', price)
    \<and> price = Finite 91
    \<and> take 2 h1' =
        [[''basePrice'' \<mapsto> Finite 10, ''discountThreshold'' \<mapsto> Finite 1,
          ''discountRate'' \<mapsto> Finite (1 / 10)],
         [''discountThreshold'' \<mapsto> Infinity, ''discountFee'' \<mapsto> Finite 0,
          ''feePerCase'' \<mapsto> Finite 0]]
    \<and> take 3 h2' =
        [[''discountThreshold'' \<mapsto> Infinity, ''discountFee'' \<mapsto> Finite 0,
          ''feePerCase'' \<mapsto> Finite 0],
         [''unrelated'' \<mapsto> Finite 7],
         [''basePrice'' \<mapsto> Finite 10, ''discountThreshold'' \<mapsto> Finite 1,
          ''discountRate'' \<mapsto> Finite (1 / 10)]]"
  using priceOrder_pure_deterministic
      [where ?h1.0 = "[[''basePrice'' \<mapsto> Finite 10, ''discountThreshold'' \<mapsto> Finite 1,
          ''discountRate'' \<mapsto> Finite (1 / 10)],
         [''discountThreshold'' \<mapsto> Infinity, ''discountFee'' \<mapsto> Finite 0,
          ''feePerCase'' \<mapsto> Finite 0]]"
       and ?product1.0 = 0 and ?shippingMethod1.0 = 1
       and ?h2.0 = "[[''discountThreshold'' \<mapsto> Infinity, ''discountFee'' \<mapsto> Finite 0,
          ''feePerCase'' \<mapsto> Finite 0],
         [''unrelated'' \<mapsto> Finite 7],
         [''basePrice'' \<mapsto> Finite 10, ''discountThreshold'' \<mapsto> Finite 1,
          ''discountRate'' \<mapsto> Finite (1 / 10)]]"
       and ?product2.0 = 2 and ?shippingMethod2.0 = 0
       and p = "\<lparr>Product.basePrice = Finite 10, discountThreshold = Finite 1,
          discountRate = Finite (1 / 10)\<rparr>"
       and s = "\<lparr>ShippingMethod.discountThreshold = Infinity, discountFee = Finite 0,
          feePerCase = Finite 0\<rparr>"
       and quantity' = "Finite 10"]
  by (simp add: holdsProduct_def holdsShippingMethod_def priceOrder_def applyShipping_def
      shippingPerCase_def calculatePricingData_def Let_def number_ops fromReal_small
      numeral_2_eq_2 numeral_3_eq_3)

end
